theory Spec2Isabelle
  imports
    Complex_Main
    "HOL-Library.Multiset"
    "HOL-Library.Product_Lexorder"
    "HOL-Library.Sublist"
begin

section \<open>JavaScript values\<close>

text \<open>
  The backend (server/index.js) and the client (src/App.jsx) exchange JSON, and the
  backend reads JSON it gets from the model-serving API. A value is modelled as it is
  after \<^verbatim>\<open>JSON.parse\<close>, with \<^verbatim>\<open>undefined\<close> added for the result of reading a
  property that is not there. Numbers are real numbers or \<^verbatim>\<open>NaN\<close> (the infinities are
  left out). An object is the association list of its own properties.
\<close>

datatype jsnum = NaN | Num real

datatype jsval =
    JUndef
  | JNull
  | JBool bool
  | JNumber jsnum
  | JStr string
  | JArr "jsval list"
  | JObj "(string \<times> jsval) list"

datatype js_error =
    HttpError jsval       \<comment> \<open>axios: a response outside 2xx, carrying \<^verbatim>\<open>err.response.data\<close>\<close>
  | NetworkError string   \<comment> \<open>axios: no response, carrying \<^verbatim>\<open>err.message\<close>\<close>
  | TypeError
  | RangeError

text \<open>Truthiness, as \<^verbatim>\<open>!v\<close>, \<^verbatim>\<open>a || b\<close> and \<^verbatim>\<open>if (v)\<close> use it.\<close>

fun truthy :: "jsval \<Rightarrow> bool" where
  "truthy JUndef = False"
| "truthy JNull = False"
| "truthy (JBool b) = b"
| "truthy (JNumber NaN) = False"
| "truthy (JNumber (Num r)) = (r \<noteq> 0)"
| "truthy (JStr s) = (s \<noteq> [])"
| "truthy (JArr xs) = True"
| "truthy (JObj kvs) = True"

definition js_or :: "jsval \<Rightarrow> jsval \<Rightarrow> jsval" where
  "js_or a b = (if truthy a then a else b)"

definition nullish :: "jsval \<Rightarrow> bool" where
  "nullish v = (v = JUndef \<or> v = JNull)"

text \<open>
  \<^verbatim>\<open>v.k\<close> for a value that is neither null nor undefined and a key that no prototype
  defines (every key read in this program is one): an object gives its own property,
  anything else gives undefined. Reading a property of null or undefined throws a
  TypeError; \<open>get_prop\<close> is the read with that check.
\<close>

fun read_prop :: "jsval \<Rightarrow> string \<Rightarrow> jsval" where
  "read_prop (JObj kvs) k = (case map_of kvs k of Some v \<Rightarrow> v | None \<Rightarrow> JUndef)"
| "read_prop v k = JUndef"

definition get_prop :: "jsval \<Rightarrow> string \<Rightarrow> js_error + jsval" where
  "get_prop v k = (if nullish v then Inl TypeError else Inr (read_prop v k))"

text \<open>\<^verbatim>\<open>v?.k\<close>: undefined when \<open>v\<close> is null or undefined.\<close>

definition opt_prop :: "jsval \<Rightarrow> string \<Rightarrow> jsval" where
  "opt_prop v k = (if nullish v then JUndef else read_prop v k)"

text \<open>
  \<^verbatim>\<open>v?.[0]\<close>: the first element of an array, the first character of a string, the own
  property \<^verbatim>\<open>"0"\<close> of an object.
\<close>

fun opt_first :: "jsval \<Rightarrow> jsval" where
  "opt_first (JArr xs) = (case xs of [] \<Rightarrow> JUndef | x # _ \<Rightarrow> x)"
| "opt_first (JStr s) = (case s of [] \<Rightarrow> JUndef | c # _ \<Rightarrow> JStr [c])"
| "opt_first (JObj kvs) = read_prop (JObj kvs) ''0''"
| "opt_first v = JUndef"

text \<open>
  \<^verbatim>\<open>Number(v)\<close>. The engine's grammar of numeric strings is a parameter
  (\<open>str_to_num\<close>), and so is the conversion of an array, which goes through
  \<^verbatim>\<open>join\<close> and that grammar and can throw (\<open>arr_to_num\<close>, \<open>None\<close> for the throw).
  A parsed object converts through \<^verbatim>\<open>Object.prototype.toString\<close> to NaN, unless it
  has an own property \<^verbatim>\<open>toString\<close>, which is not callable: then the conversion
  throws a TypeError.
\<close>

record engine =
  str_to_num :: "string \<Rightarrow> jsnum"
  arr_to_num :: "jsval list \<Rightarrow> jsnum option"

fun Number_js :: "engine \<Rightarrow> jsval \<Rightarrow> jsnum option" where
  "Number_js eng JUndef = Some NaN"
| "Number_js eng JNull = Some (Num 0)"
| "Number_js eng (JBool b) = Some (Num (if b then 1 else 0))"
| "Number_js eng (JNumber n) = Some n"
| "Number_js eng (JStr s) = Some (str_to_num eng s)"
| "Number_js eng (JArr xs) = arr_to_num eng xs"
| "Number_js eng (JObj kvs) =
     (if ''toString'' \<in> fst ` set kvs then None else Some NaN)"

fun js_minus :: "jsnum \<Rightarrow> jsnum \<Rightarrow> jsnum" where
  "js_minus (Num a) (Num b) = Num (a - b)"
| "js_minus a b = NaN"

text \<open>\<^verbatim>\<open>a === b\<close> on values that came through JSON and are not objects or arrays
  (those compare by reference): equal values, except that NaN equals nothing.\<close>

definition strict_equals :: "jsval \<Rightarrow> jsval \<Rightarrow> bool" where
  "strict_equals a b = (a = b \<and> a \<noteq> JNumber NaN)"

text \<open>\<^verbatim>\<open>Array.isArray(v)\<close> and \<^verbatim>\<open>v.includes(s)\<close> for a string \<open>s\<close> and an array \<open>v\<close>.\<close>

fun isArray :: "jsval \<Rightarrow> bool" where
  "isArray (JArr xs) = True"
| "isArray v = False"

fun js_includes :: "jsval \<Rightarrow> string \<Rightarrow> bool" where
  "js_includes (JArr xs) s = (JStr s \<in> set xs)"
| "js_includes v s = False"

section \<open>Model catalogue: normalizer, ranking, filter\<close>

record pricing =
  prompt :: jsnum
  completion :: jsnum

record descriptor =
  model_id :: jsval
  model_name :: jsval
  description :: jsval
  pricing :: pricing
  isFree :: bool
  outputModalities :: jsval
  inputModalities :: jsval
  isImageCapable :: bool
  isVideoCapable :: bool

text \<open>
  The callback of \<^verbatim>\<open>models.map\<close> in GET /api/models and GET /api/video-models (the two
  are the same text). The first read, \<^verbatim>\<open>m.pricing\<close>, throws when the record is null;
  every later read is of \<open>m\<close> again or of a value that went through \<^verbatim>\<open>|| {}\<close>.
  \<^verbatim>\<open>Number(...)\<close> is evaluated for the two prices and again for \<^verbatim>\<open>isFree\<close>.
\<close>

definition map_model :: "engine \<Rightarrow> jsval \<Rightarrow> js_error + descriptor" where
  "map_model eng m =
     (case get_prop m ''pricing'' of
        Inl e \<Rightarrow> Inl e
      | Inr raw_pricing \<Rightarrow>
         (let pricing = js_or raw_pricing (JObj []) in
          case Number_js eng (js_or (read_prop pricing ''prompt'') (JNumber (Num 0))) of
            None \<Rightarrow> Inl TypeError
          | Some promptPrice \<Rightarrow>
             (case Number_js eng (js_or (read_prop pricing ''completion'') (JNumber (Num 0))) of
                None \<Rightarrow> Inl TypeError
              | Some completionPrice \<Rightarrow>
                 (let arch = js_or (read_prop m ''architecture'') (JObj []);
                      outputModalities =
                        js_or (js_or (read_prop arch ''output_modalities'')
                                     (read_prop m ''output_modalities'')) (JArr []);
                      inputModalities =
                        js_or (js_or (read_prop arch ''input_modalities'')
                                     (read_prop m ''input_modalities'')) (JArr []);
                      hasImage = (isArray outputModalities \<and> js_includes outputModalities ''image'');
                      hasVideo =
                        ((isArray outputModalities \<and> js_includes outputModalities ''video'') \<or>
                         (isArray inputModalities \<and> js_includes inputModalities ''video''))
                  in Inr \<lparr> model_id = read_prop m ''id'',
                           model_name = read_prop m ''name'',
                           description = read_prop m ''description'',
                           pricing = \<lparr> prompt = promptPrice, completion = completionPrice \<rparr>,
                           isFree = (promptPrice = Num 0 \<and> completionPrice = Num 0),
                           outputModalities = outputModalities,
                           inputModalities = inputModalities,
                           isImageCapable = hasImage,
                           isVideoCapable = hasVideo \<rparr>))))"

text \<open>\<^verbatim>\<open>models.map(f)\<close> with a callback that can throw: the first throw ends the map.\<close>

fun map_all :: "('a \<Rightarrow> js_error + 'b) \<Rightarrow> 'a list \<Rightarrow> js_error + 'b list" where
  "map_all f [] = Inr []"
| "map_all f (x # xs) =
     (case f x of
        Inl e \<Rightarrow> Inl e
      | Inr y \<Rightarrow> (case map_all f xs of Inl e \<Rightarrow> Inl e | Inr ys \<Rightarrow> Inr (y # ys)))"

text \<open>The comparator given to \<^verbatim>\<open>sort\<close> in both listings.\<close>

definition compare_models :: "descriptor \<Rightarrow> descriptor \<Rightarrow> jsnum" where
  "compare_models a b =
     (if isFree a \<and> \<not> isFree b then Num (- 1)
      else if \<not> isFree a \<and> isFree b then Num 1
      else js_minus (prompt (pricing a)) (prompt (pricing b)))"

text \<open>
  \<^verbatim>\<open>Array.prototype.sort(cmp)\<close>. The language fixes the result for a comparator that is
  consistent: the stable arrangement in which \<open>a\<close> comes before \<open>b\<close> when
  \<open>cmp a b < 0\<close>; a NaN from the comparator counts as 0. It is modelled by a stable
  insertion sort that moves an element past those it compares greater than. For a
  comparator that is not consistent (a NaN price makes this one so) the language leaves
  the order to the engine, and the model does not give the engine's order.
\<close>

fun positive :: "jsnum \<Rightarrow> bool" where
  "positive NaN = False"
| "positive (Num r) = (0 < r)"

fun insort_by :: "('a \<Rightarrow> 'a \<Rightarrow> jsnum) \<Rightarrow> 'a \<Rightarrow> 'a list \<Rightarrow> 'a list" where
  "insort_by cmp x [] = [x]"
| "insort_by cmp x (y # ys) =
     (if positive (cmp x y) then y # insort_by cmp x ys else x # y # ys)"

definition js_sort :: "('a \<Rightarrow> 'a \<Rightarrow> jsnum) \<Rightarrow> 'a list \<Rightarrow> 'a list" where
  "js_sort cmp xs = foldr (insort_by cmp) xs []"

definition rank :: "descriptor list \<Rightarrow> descriptor list" where
  "rank ds = js_sort compare_models ds"

text \<open>The filter of the client, \<^verbatim>\<open>filteredModels\<close> (and \<^verbatim>\<open>compat\<close>, the same text).\<close>

definition isImageMode :: "string \<Rightarrow> bool" where
  "isImageMode activeMode = (activeMode = ''Image Prompts'')"

definition isVideoMode :: "string \<Rightarrow> bool" where
  "isVideoMode activeMode = (activeMode = ''Video Prompts'')"

definition filteredModels :: "string \<Rightarrow> descriptor list \<Rightarrow> descriptor list" where
  "filteredModels activeMode models =
     filter (\<lambda>m. if isImageMode activeMode then isImageCapable m
                 else if isVideoMode activeMode then isVideoCapable m
                 else True) models"

datatype failure_detail = NoDetail | DetailData jsval | DetailMessage js_error

datatype 'a response = Success 'a | Failure nat string failure_detail

text \<open>
  GET /api/models and GET /api/video-models, after \<^verbatim>\<open>requireAuth\<close>. The argument is what
  \<^verbatim>\<open>axios.get\<close> gives: an error, or \<^verbatim>\<open>response.data\<close>. \<^verbatim>\<open>response.data.data || []\<close> must
  be an array for \<^verbatim>\<open>.map\<close> to exist. Every throw lands in the one \<^verbatim>\<open>catch\<close>.
\<close>

definition mapped_models :: "engine \<Rightarrow> js_error + jsval \<Rightarrow> js_error + descriptor list" where
  "mapped_models eng upstream =
     (case upstream of
        Inl e \<Rightarrow> Inl e
      | Inr data \<Rightarrow>
         (case get_prop data ''data'' of
            Inl e \<Rightarrow> Inl e
          | Inr d \<Rightarrow>
             (case js_or d (JArr []) of
                JArr models \<Rightarrow> map_all (map_model eng) models
              | _ \<Rightarrow> Inl TypeError)))"

definition get_models :: "engine \<Rightarrow> js_error + jsval \<Rightarrow> descriptor list response" where
  "get_models eng upstream =
     (case mapped_models eng upstream of
        Inl e \<Rightarrow> Failure 500 ''Failed to load models from OpenRouter.'' NoDetail
      | Inr mapped \<Rightarrow> Success (js_sort compare_models mapped))"

definition get_video_models :: "engine \<Rightarrow> js_error + jsval \<Rightarrow> descriptor list response" where
  "get_video_models eng upstream =
     (case mapped_models eng upstream of
        Inl e \<Rightarrow> Failure 500 ''Failed to load video models.'' NoDetail
      | Inr mapped \<Rightarrow>
          (let videoModels = filter isVideoCapable mapped
           in Success (js_sort compare_models videoModels)))"

text \<open>Reading a price for the statements about ranking: \<^verbatim>\<open>a <= b\<close> on numbers, and
  the key the comparator orders by (paid after free, then the prompt price).\<close>

fun num_le :: "jsnum \<Rightarrow> jsnum \<Rightarrow> bool" where
  "num_le (Num a) (Num b) = (a \<le> b)"
| "num_le a b = False"

fun num_val :: "jsnum \<Rightarrow> real" where
  "num_val (Num r) = r"
| "num_val NaN = 0"

definition rank_key :: "descriptor \<Rightarrow> bool \<times> real" where
  "rank_key d = (\<not> isFree d, num_val (prompt (pricing d)))"

text \<open>
  The raw fields the normalizer reads, written with optional chaining:
  \<^verbatim>\<open>m.pricing?.prompt\<close> and \<^verbatim>\<open>m.architecture?.output_modalities\<close>. A price field is
  primitive when it is not an array or an object (its conversion to a number cannot
  throw); a record is readable when it is not null and its two price fields are
  primitive.
\<close>

definition price_field :: "jsval \<Rightarrow> string \<Rightarrow> jsval" where
  "price_field m k = opt_prop (read_prop m ''pricing'') k"

definition arch_field :: "jsval \<Rightarrow> string \<Rightarrow> jsval" where
  "arch_field m k = opt_prop (read_prop m ''architecture'') k"

fun primitive :: "jsval \<Rightarrow> bool" where
  "primitive (JArr xs) = False"
| "primitive (JObj kvs) = False"
| "primitive v = True"

definition readable :: "jsval \<Rightarrow> bool" where
  "readable m =
     (\<not> nullish m \<and> primitive (price_field m ''prompt'') \<and>
      primitive (price_field m ''completion''))"

text \<open>What the normalizer must give for a raw record, field by field.\<close>

definition price_default :: "jsval \<Rightarrow> jsnum \<Rightarrow> bool" where
  "price_default raw p = (truthy raw \<or> p = Num 0)"

definition modality_fallback :: "jsval \<Rightarrow> jsval \<Rightarrow> jsval \<Rightarrow> bool" where
  "modality_fallback nested outer result =
     (result = (if truthy nested then nested else if truthy outer then outer else JArr []))"

definition normalized :: "jsval \<Rightarrow> descriptor \<Rightarrow> bool" where
  "normalized m d =
     (price_default (price_field m ''prompt'') (prompt (pricing d)) \<and>
      price_default (price_field m ''completion'') (completion (pricing d)) \<and>
      modality_fallback (arch_field m ''output_modalities'')
        (read_prop m ''output_modalities'') (outputModalities d) \<and>
      modality_fallback (arch_field m ''input_modalities'')
        (read_prop m ''input_modalities'') (inputModalities d))"

text \<open>The capability of a descriptor read off its modality fields.\<close>

definition has_image :: "descriptor \<Rightarrow> bool" where
  "has_image d = (isArray (outputModalities d) \<and> js_includes (outputModalities d) ''image'')"

definition has_video :: "descriptor \<Rightarrow> bool" where
  "has_video d =
     ((isArray (outputModalities d) \<and> js_includes (outputModalities d) ''video'') \<or>
      (isArray (inputModalities d) \<and> js_includes (inputModalities d) ''video''))"

text \<open>Sample data: an engine that reads three numeric strings, and four raw records.\<close>

definition sample_engine :: engine where
  "sample_engine =
     \<lparr> str_to_num = (\<lambda>s. if s = ''0'' then Num 0
                          else if s = ''0.000002'' then Num (2 / 1000000)
                          else if s = ''0.00001'' then Num (1 / 100000)
                          else NaN),
       arr_to_num = (\<lambda>xs. None) \<rparr>"

definition raw_text_model :: jsval where
  "raw_text_model =
     JObj [(''id'', JStr ''acme/text-1''), (''name'', JStr ''Text One''),
           (''pricing'', JObj [(''prompt'', JStr ''0.000002''), (''completion'', JStr ''0.00001'')]),
           (''architecture'', JObj [(''input_modalities'', JArr [JStr ''text'']),
                                    (''output_modalities'', JArr [JStr ''text''])])]"

definition raw_free_model :: jsval where
  "raw_free_model = JObj [(''id'', JStr ''acme/free''), (''name'', JStr ''Free'')]"

definition raw_image_model :: jsval where
  "raw_image_model =
     JObj [(''id'', JStr ''acme/paint''), (''name'', JStr ''Paint''),
           (''pricing'', JObj [(''prompt'', JStr ''0''), (''completion'', JStr ''0'')]),
           (''output_modalities'', JArr [JStr ''image'', JStr ''text''])]"

definition raw_video_model :: jsval where
  "raw_video_model =
     JObj [(''id'', JStr ''acme/film''), (''name'', JStr ''Film''),
           (''pricing'', JObj [(''prompt'', JStr ''0.00001''), (''completion'', JStr ''0'')]),
           (''architecture'', JObj [(''input_modalities'', JArr [JStr ''text'', JStr ''video''])])]"

definition sample_catalogue :: jsval where
  "sample_catalogue =
     JObj [(''data'', JArr [raw_text_model, raw_free_model, raw_image_model, raw_video_model])]"

definition paid_descriptor :: descriptor where
  "paid_descriptor =
     \<lparr> model_id = JStr ''acme/text-1'', model_name = JStr ''Text One'', description = JUndef,
       pricing = \<lparr> prompt = Num (2 / 1000000), completion = Num (1 / 100000) \<rparr>,
       isFree = False,
       outputModalities = JArr [JStr ''text''], inputModalities = JArr [JStr ''text''],
       isImageCapable = False, isVideoCapable = False \<rparr>"

definition free_descriptor :: descriptor where
  "free_descriptor =
     \<lparr> model_id = JStr ''acme/free'', model_name = JStr ''Free'', description = JUndef,
       pricing = \<lparr> prompt = Num 0, completion = Num 0 \<rparr>,
       isFree = True,
       outputModalities = JArr [], inputModalities = JArr [],
       isImageCapable = False, isVideoCapable = False \<rparr>"

section \<open>Strings\<close>

text \<open>
  A string is a list of code units below 256, read as Latin-1. \<^verbatim>\<open>toLowerCase\<close> maps
  A-Z and the accented capitals (except the multiplication sign) to their lower case;
  \<^verbatim>\<open>trim\<close> removes the white space of the language at both ends.
\<close>

definition lower_char :: "char \<Rightarrow> char" where
  "lower_char c =
     (let n = (of_char c :: nat)
      in if (65 \<le> n \<and> n \<le> 90) \<or> (192 \<le> n \<and> n \<le> 222 \<and> n \<noteq> 215)
         then char_of (n + 32) else c)"

definition toLowerCase :: "string \<Rightarrow> string" where
  "toLowerCase s = map lower_char s"

definition is_space :: "char \<Rightarrow> bool" where
  "is_space c = ((of_char c :: nat) \<in> {9, 10, 11, 12, 13, 32, 160})"

definition js_trim :: "string \<Rightarrow> string" where
  "js_trim s = rev (dropWhile is_space (rev (dropWhile is_space s)))"

text \<open>\<^verbatim>\<open>s.includes(pat)\<close>: \<open>pat\<close> starts at some position of \<open>s\<close>.\<close>

fun str_includes :: "string \<Rightarrow> string \<Rightarrow> bool" where
  "str_includes [] pat = (pat = [])"
| "str_includes (c # s) pat = (prefix pat (c # s) \<or> str_includes s pat)"

text \<open>
  \<^verbatim>\<open>s.match(/20\d{2}/)\<close>: the leftmost place where \<^verbatim>\<open>20\<close> is followed by two decimal
  digits; the result is the matched text. \<^verbatim>\<open>parseInt(text, 10)\<close> on a text of decimal
  digits.
\<close>

definition is_digit :: "char \<Rightarrow> bool" where
  "is_digit c = (48 \<le> (of_char c :: nat) \<and> (of_char c :: nat) \<le> 57)"

definition digit_val :: "char \<Rightarrow> int" where
  "digit_val c = int (of_char c) - 48"

fun year_match :: "string \<Rightarrow> string option" where
  "year_match (a # b # c # d # rest) =
     (if a = CHR ''2'' \<and> b = CHR ''0'' \<and> is_digit c \<and> is_digit d then Some [a, b, c, d]
      else year_match (b # c # d # rest))"
| "year_match s = None"

definition parseInt :: "string \<Rightarrow> int" where
  "parseInt s = foldl (\<lambda>acc c. 10 * acc + digit_val c) 0 s"

text \<open>A whole number in a template literal: its decimal digits, with a sign when negative.\<close>

definition digit_char :: "nat \<Rightarrow> char" where
  "digit_char n = char_of (48 + n mod 10)"

fun digits_of :: "nat \<Rightarrow> string" where
  "digits_of n = (if n < 10 then [digit_char n] else digits_of (n div 10) @ [digit_char n])"

declare digits_of.simps [simp del]

definition show_int :: "int \<Rightarrow> string" where
  "show_int i = (if i < 0 then CHR ''-'' # digits_of (nat (- i)) else digits_of (nat i))"

text \<open>The fixed-width fields of \<^verbatim>\<open>toISOString\<close>.\<close>

definition two_digits :: "int \<Rightarrow> string" where
  "two_digits n = [digit_char (nat n div 10), digit_char (nat n)]"

definition three_digits :: "int \<Rightarrow> string" where
  "three_digits n = digit_char (nat n div 100) # two_digits n"

definition four_digits :: "int \<Rightarrow> string" where
  "four_digits n = digit_char (nat n div 1000) # three_digits n"

definition six_digits :: "int \<Rightarrow> string" where
  "six_digits n = digit_char (nat n div 100000) # digit_char (nat n div 10000) # four_digits n"

section \<open>Dates\<close>

text \<open>
  A time value is a whole number of milliseconds since 1970-01-01T00:00:00Z. The
  functions are those of the language definition (Day, DayFromYear, YearFromTime,
  MonthFromTime, DateFromTime, MakeDay); the limit of 8.64e15 milliseconds on a time
  value (beyond it a date is invalid, in the year 275760) is not modelled.
  \<open>YearFromDay\<close> computes the year of a day number from an estimate that is off by at
  most one.
\<close>

definition msPerDay :: int where
  "msPerDay = 86400000"

definition Day :: "int \<Rightarrow> int" where
  "Day t = t div msPerDay"

definition DayFromYear :: "int \<Rightarrow> int" where
  "DayFromYear y =
     365 * (y - 1970) + (y - 1969) div 4 - (y - 1901) div 100 + (y - 1601) div 400"

definition InLeapYear :: "int \<Rightarrow> bool" where
  "InLeapYear y = (y mod 4 = 0 \<and> (y mod 100 \<noteq> 0 \<or> y mod 400 = 0))"

definition YearFromDay :: "int \<Rightarrow> int" where
  "YearFromDay d =
     (let y = 1970 + (400 * d) div 146097
      in if d < DayFromYear y then y - 1
         else if DayFromYear (y + 1) \<le> d then y + 1
         else y)"

definition YearFromTime :: "int \<Rightarrow> int" where
  "YearFromTime t = YearFromDay (Day t)"

definition DayWithinYear :: "int \<Rightarrow> int" where
  "DayWithinYear t = Day t - DayFromYear (YearFromTime t)"

definition leap_day :: "int \<Rightarrow> int" where
  "leap_day t = (if InLeapYear (YearFromTime t) then 1 else 0)"

definition MonthFromTime :: "int \<Rightarrow> int" where
  "MonthFromTime t =
     (let d = DayWithinYear t; l = leap_day t
      in if d < 31 then 0
         else if d < 59 + l then 1
         else if d < 90 + l then 2
         else if d < 120 + l then 3
         else if d < 151 + l then 4
         else if d < 181 + l then 5
         else if d < 212 + l then 6
         else if d < 243 + l then 7
         else if d < 273 + l then 8
         else if d < 304 + l then 9
         else if d < 334 + l then 10
         else 11)"

definition DateFromTime :: "int \<Rightarrow> int" where
  "DateFromTime t =
     (let d = DayWithinYear t; l = leap_day t; m = MonthFromTime t
      in if m = 0 then d + 1
         else if m = 1 then d - 30
         else if m = 2 then d - 58 - l
         else if m = 3 then d - 89 - l
         else if m = 4 then d - 119 - l
         else if m = 5 then d - 150 - l
         else if m = 6 then d - 180 - l
         else if m = 7 then d - 211 - l
         else if m = 8 then d - 242 - l
         else if m = 9 then d - 272 - l
         else if m = 10 then d - 303 - l
         else d - 333 - l)"

text \<open>\<^verbatim>\<open>toISOString\<close> of a valid date; a year outside 0..9999 is written with a sign and
  six digits.\<close>

definition iso_year :: "int \<Rightarrow> string" where
  "iso_year y =
     (if 0 \<le> y \<and> y \<le> 9999 then four_digits y
      else (if y < 0 then CHR ''-'' else CHR ''+'') # six_digits (abs y))"

definition toISOString :: "int \<Rightarrow> string" where
  "toISOString t =
     iso_year (YearFromTime t) @ ''-'' @ two_digits (MonthFromTime t + 1) @ ''-'' @
     two_digits (DateFromTime t) @ ''T'' @ two_digits ((t div 3600000) mod 24) @ '':'' @
     two_digits ((t div 60000) mod 60) @ '':'' @ two_digits ((t div 1000) mod 60) @ ''.'' @
     three_digits (t mod 1000) @ ''Z''"

text \<open>
  The host: its offset from UTC in milliseconds (local time is UTC plus the offset, taken
  as fixed), its clock, its rendering of a date by \<^verbatim>\<open>toLocaleString("en-ZA", ...)\<close>, and
  the environment variable \<^verbatim>\<open>DEFAULT_IMAGE_MODEL\<close> (undefined when not set).
\<close>

record host =
  tz_offset :: int
  wall_clock :: int
  human_date :: "int \<Rightarrow> string"
  default_image_model :: jsval

definition getFullYear :: "host \<Rightarrow> int \<Rightarrow> int" where
  "getFullYear h t = YearFromTime (t + tz_offset h)"

text \<open>
  \<^verbatim>\<open>new Date(year, 11, 25)\<close>: local midnight at the start of 25 December. A year from 0
  to 99 is read as 1900 plus the year. December begins 334 days into the year, one
  more in a leap year.
\<close>

definition MakeDay_december :: "int \<Rightarrow> int \<Rightarrow> int" where
  "MakeDay_december y date =
     DayFromYear y + (if InLeapYear y then 335 else 334) + date - 1"

definition december_25 :: "host \<Rightarrow> int \<Rightarrow> int" where
  "december_25 h year =
     (let yr = (if 0 \<le> year \<and> year \<le> 99 then 1900 + year else year)
      in MakeDay_december yr 25 * msPerDay - tz_offset h)"

text \<open>\<^verbatim>\<open>Math.ceil(a / b)\<close> for whole \<open>a\<close> and positive whole \<open>b\<close>.\<close>

definition ceil_div :: "int \<Rightarrow> int \<Rightarrow> int" where
  "ceil_div a b = - ((- a) div b)"

section \<open>Request router: POST /api/ai and POST /api/image\<close>

text \<open>
  The body of a turn as the client sends it. \<^verbatim>\<open>clientDate\<close> is kept as what
  \<^verbatim>\<open>clientDate ? new Date(clientDate) : new Date()\<close> makes of it: absent (or falsy), a text
  that gives an invalid date, or a text that gives an instant. Brand and mode are the
  client's labels, which are strings.
\<close>

datatype client_date = NoDate | BadDate | Instant int

record ai_body =
  body_prompt :: jsval
  body_brand :: string
  body_mode :: string
  body_modelId :: jsval
  body_model :: jsval
  body_clientDate :: client_date

record upstream_request =
  url :: string
  payload :: jsval
  timeout_ms :: nat

type_synonym upstream = "upstream_request \<Rightarrow> js_error + jsval"

definition new_Date :: "host \<Rightarrow> client_date \<Rightarrow> int option" where
  "new_Date h cd =
     (case cd of NoDate \<Rightarrow> Some (wall_clock h) | BadDate \<Rightarrow> None | Instant t \<Rightarrow> Some t)"

text \<open>
  \<^verbatim>\<open>!prompt || !prompt.trim()\<close>: \<open>Inr None\<close> when the test rejects the prompt, \<open>Inr (Some s)\<close>
  when it lets the string \<open>s\<close> through; a truthy value that is not a string has no
  \<^verbatim>\<open>trim\<close>, and the call throws.
\<close>

fun prompt_check :: "jsval \<Rightarrow> js_error + string option" where
  "prompt_check (JStr s) = (if s = [] \<or> js_trim s = [] then Inr None else Inr (Some s))"
| "prompt_check v = (if truthy v then Inl TypeError else Inr None)"

text \<open>The \<^verbatim>\<open>catch\<close> of both handlers: status 500, with the upstream's error body or the
  message of the error as details.\<close>

definition catch_failure :: "string \<Rightarrow> js_error \<Rightarrow> jsval response" where
  "catch_failure msg e =
     Failure 500 msg (case e of HttpError d \<Rightarrow> DetailData d | _ \<Rightarrow> DetailMessage e)"

text \<open>The date special case of POST /api/ai.\<close>

definition christmas_targetYear :: "host \<Rightarrow> string \<Rightarrow> int \<Rightarrow> int" where
  "christmas_targetYear h lower now =
     (case year_match lower of
        Some yearMatch \<Rightarrow> parseInt yearMatch
      | None \<Rightarrow>
         (let targetYear = getFullYear h now;
              christmasThisYear = december_25 h targetYear
          in if christmasThisYear < now then targetYear + 1 else targetYear))"

definition christmas_days :: "host \<Rightarrow> int \<Rightarrow> int \<Rightarrow> int" where
  "christmas_days h targetYear now =
     (let target = december_25 h targetYear;
          diffMs = target - now
      in max 0 (ceil_div diffMs (1000 * 60 * 60 * 24)))"

definition christmas_reply :: "host \<Rightarrow> string \<Rightarrow> int \<Rightarrow> string" where
  "christmas_reply h lower now =
     (let targetYear = christmas_targetYear h lower now;
          days = christmas_days h targetYear now
      in ''There are '' @ show_int days @ '' days until Christmas '' @ show_int targetYear @
         ''. (Based on current date '' @ take 10 (toISOString now) @ '')'')"

text \<open>The system instruction of the text path, after \<^verbatim>\<open>trim\<close>.\<close>

definition systemPrompt :: "string \<Rightarrow> string \<Rightarrow> string \<Rightarrow> string \<Rightarrow> string" where
  "systemPrompt brand mode humanDate isoNow =
     ''You are Byte-Size AI, the personal AI assistant for Leonard van Rooyen.'' @ [CHR 0x0A] @
     ''Brand: '' @ brand @ [CHR 0x0A] @
     ''Mode: '' @ mode @ [CHR 0x0A, CHR 0x0A] @
     ''Current real-world date & time (user'' @ [CHR 0x27] @ ''s context) is: '' @ humanDate @
     '' (ISO: '' @ isoNow @ '').'' @ [CHR 0x0A] @
     ''Always use THIS runtime date/time for:'' @ [CHR 0x0A] @
     ''- '' @ [CHR 0x22] @ ''today'' @ [CHR 0x22] @ '', '' @ [CHR 0x22] @ ''now'' @ [CHR 0x22] @
     '', '' @ [CHR 0x22] @ ''current year'' @ [CHR 0x22] @ '', '' @ [CHR 0x22] @ ''this month'' @
     [CHR 0x22] @ '', '' @ [CHR 0x22] @ ''this week'' @ [CHR 0x22] @ [CHR 0x0A] @
     ''- counting days until/from a date'' @ [CHR 0x0A] @
     ''- anything involving deadlines, days remaining, or time differences.'' @
     [CHR 0x0A, CHR 0x0A] @
     ''Do NOT rely on your training cutoff date for time-related questions. If there is any conflict,'' @
     [CHR 0x0A] @
     ''the runtime date above is the source of truth.'' @ [CHR 0x0A, CHR 0x0A] @
     ''Stay consistent with Leonard'' @ [CHR 0x27] @
     ''s brand voice: professional, sharp, direct, but still human.'' @ [CHR 0x0A] @
     ''Speak clearly, be practical, and avoid fluff.''"

definition chat_request :: "jsval \<Rightarrow> string \<Rightarrow> string \<Rightarrow> upstream_request" where
  "chat_request model system the_prompt =
     \<lparr> url = ''https://openrouter.ai/api/v1/chat/completions'',
       payload =
         JObj [(''model'', model),
               (''messages'',
                JArr [JObj [(''role'', JStr ''system''), (''content'', JStr system)],
                      JObj [(''role'', JStr ''user''), (''content'', JStr the_prompt)]])],
       timeout_ms = 60000 \<rparr>"

text \<open>
  POST /api/ai, after \<^verbatim>\<open>requireAuth\<close>: the response, and the requests made to the
  model-serving API, in order. \<^verbatim>\<open>now.toISOString()\<close> throws a RangeError on an invalid
  date, before anything else is looked at.
\<close>

definition api_ai :: "host \<Rightarrow> upstream \<Rightarrow> ai_body \<Rightarrow> jsval response \<times> upstream_request list" where
  "api_ai h upstream body =
     (case prompt_check (body_prompt body) of
        Inl e \<Rightarrow> (catch_failure ''AI request failed.'' e, [])
      | Inr None \<Rightarrow> (Failure 400 ''Missing prompt.'' NoDetail, [])
      | Inr (Some the_prompt) \<Rightarrow>
         (case new_Date h (body_clientDate body) of
            None \<Rightarrow> (catch_failure ''AI request failed.'' RangeError, [])
          | Some now \<Rightarrow>
             (let isoNow = toISOString now;
                  humanDate = human_date h now;
                  lower = toLowerCase the_prompt
              in if str_includes lower ''how many days'' \<and> str_includes lower ''christmas''
                 then (Success (JObj [(''reply'', JStr (christmas_reply h lower now))]), [])
                 else
                  (let model = js_or (body_modelId body) (JStr ''openai/gpt-4o-mini'');
                       request =
                         chat_request model
                           (systemPrompt (body_brand body) (body_mode body) humanDate isoNow)
                           the_prompt
                   in case upstream request of
                        Inl e \<Rightarrow> (catch_failure ''AI request failed.'' e, [request])
                      | Inr data \<Rightarrow>
                         (case get_prop data ''choices'' of
                            Inl e \<Rightarrow> (catch_failure ''AI request failed.'' e, [request])
                          | Inr choices \<Rightarrow>
                             (let aiReply =
                                js_or (opt_prop (opt_prop (opt_first choices) ''message'')
                                         ''content'')
                                      (JStr ''No response received from OpenRouter.'')
                              in (Success (JObj [(''reply'', aiReply)]), [request])))))))"

definition image_request :: "jsval \<Rightarrow> string \<Rightarrow> upstream_request" where
  "image_request imageModel the_prompt =
     \<lparr> url = ''https://openrouter.ai/api/v1/chat/completions'',
       payload =
         JObj [(''model'', imageModel),
               (''messages'',
                JArr [JObj [(''role'', JStr ''user''), (''content'', JStr the_prompt)]]),
               (''modalities'', JArr [JStr ''image'', JStr ''text'']),
               (''stream'', JBool False)],
       timeout_ms = 120000 \<rparr>"

text \<open>The URL of the first image, under either of the two shapes.\<close>

definition image_url :: "jsval \<Rightarrow> jsval" where
  "image_url message =
     (let img = opt_first (read_prop message ''images'')
      in js_or (js_or (opt_prop (opt_prop img ''image_url'') ''url'')
                      (opt_prop (opt_prop img ''imageUrl'') ''url''))
               JNull)"

text \<open>POST /api/image, after \<^verbatim>\<open>requireAuth\<close>.\<close>

definition api_image ::
  "host \<Rightarrow> upstream \<Rightarrow> ai_body \<Rightarrow> jsval response \<times> upstream_request list" where
  "api_image h upstream body =
     (case prompt_check (body_prompt body) of
        Inl e \<Rightarrow> (catch_failure ''Image request failed.'' e, [])
      | Inr None \<Rightarrow> (Failure 400 ''Missing prompt for image generation.'' NoDetail, [])
      | Inr (Some the_prompt) \<Rightarrow>
         (let imageModel =
                js_or (js_or (body_model body) (default_image_model h))
                      (JStr ''google/gemini-2.5-flash-image-preview'');
              request = image_request imageModel the_prompt
          in case upstream request of
               Inl e \<Rightarrow> (catch_failure ''Image request failed.'' e, [request])
             | Inr data \<Rightarrow>
                (case get_prop data ''choices'' of
                   Inl e \<Rightarrow> (catch_failure ''Image request failed.'' e, [request])
                 | Inr choices \<Rightarrow>
                    (let message = js_or (opt_prop (opt_first choices) ''message'') (JObj []);
                         imageUrl = image_url message
                     in if \<not> truthy imageUrl
                        then (Failure 500 ''OpenRouter returned no image for this prompt.''
                                NoDetail, [request])
                        else (Success
                                (JObj [(''reply'',
                                        js_or (read_prop message ''content'')
                                              (JStr ''Here is your generated image.'')),
                                       (''imageUrl'', imageUrl)]),
                              [request])))))"





text \<open>Sample data: a host on UTC whose clock reads 2025-12-26T09:30:00Z, an upstream
  that answers every request with an empty object, and two bodies.\<close>

definition sample_host :: host where
  "sample_host =
     \<lparr> tz_offset = 0, wall_clock = 1766741400000,
       human_date = (\<lambda>t. ''Friday, 26 December 2025 at 09:30''),
       default_image_model = JUndef \<rparr>"

definition empty_upstream :: upstream where
  "empty_upstream = (\<lambda>request. Inr (JObj []))"


definition hello_body :: ai_body where
  "hello_body =
     \<lparr> body_prompt = JStr ''Hello'',
       body_brand = ''DSSA'', body_mode = ''Chat / Brain'',
       body_modelId = JStr ''acme/text-1'', body_model = JStr ''acme/text-1'',
       body_clientDate = Instant 1735689600000 \<rparr>"

text \<open>
  What an upstream answer holds at \<^verbatim>\<open>choices[0].message.content\<close>, and the URL of its
  first image under either shape, \<^verbatim>\<open>choices[0].message.images[0].image_url.url\<close> or
  \<^verbatim>\<open>...imageUrl.url\<close>, each read with optional chaining all the way.
\<close>

definition upstream_message :: "jsval \<Rightarrow> jsval" where
  "upstream_message data = opt_prop (opt_first (opt_prop data ''choices'')) ''message''"

definition upstream_content :: "jsval \<Rightarrow> jsval" where
  "upstream_content data = opt_prop (upstream_message data) ''content''"

definition upstream_image_url :: "jsval \<Rightarrow> jsval" where
  "upstream_image_url data =
     (let img = opt_first (opt_prop (upstream_message data) ''images'')
      in js_or (opt_prop (opt_prop img ''image_url'') ''url'')
               (opt_prop (opt_prop img ''imageUrl'') ''url''))"

definition imageModel_of :: "host \<Rightarrow> ai_body \<Rightarrow> jsval" where
  "imageModel_of h body =
     js_or (js_or (body_model body) (default_image_model h))
           (JStr ''google/gemini-2.5-flash-image-preview'')"

definition text_request :: "host \<Rightarrow> ai_body \<Rightarrow> string \<Rightarrow> int \<Rightarrow> upstream_request" where
  "text_request h body the_prompt now =
     chat_request (js_or (body_modelId body) (JStr ''openai/gpt-4o-mini''))
       (systemPrompt (body_brand body) (body_mode body) (human_date h now) (toISOString now))
       the_prompt"

definition fallback_answer :: jsval where
  "fallback_answer =
     JObj [(''choices'',
            JArr [JObj [(''message'',
                         JObj [(''content'',
                                JStr ''No response received from OpenRouter.'')])]])]"

text \<open>More sample data: an upstream that answers every request with the body \<^verbatim>\<open>null\<close>, and
  three bodies with the prompt \<^verbatim>\<open>how many days until christmas\<close>: one dated
  0050-06-01T00:00:00Z, one dated 10000-01-01T00:00:00Z, and one whose \<^verbatim>\<open>clientDate\<close> is a
  text that is not a date.\<close>

definition null_upstream :: upstream where
  "null_upstream = (\<lambda>request. Inr JNull)"




section \<open>Conversation store: GET and POST /api/chat-state\<close>

text \<open>
  The table \<^verbatim>\<open>chat_state\<close> (server/db.js) maps the primary key \<^verbatim>\<open>id\<close> to the column
  \<^verbatim>\<open>data\<close>. The column holds the text \<^verbatim>\<open>JSON.stringify\<close> wrote; it is modelled by the
  value \<^verbatim>\<open>JSON.parse\<close> reads back from that text. Serialising drops a property whose
  value is undefined and writes null for an undefined array element and for NaN.
\<close>

fun json_roundtrip :: "jsval \<Rightarrow> jsval" where
  "json_roundtrip JUndef = JNull"
| "json_roundtrip (JNumber NaN) = JNull"
| "json_roundtrip (JArr xs) = JArr (map json_roundtrip xs)"
| "json_roundtrip (JObj kvs) =
     JObj (map (\<lambda>kv. (fst kv, json_roundtrip (snd kv))) (filter (\<lambda>kv. snd kv \<noteq> JUndef) kvs))"
| "json_roundtrip v = v"

text \<open>A value that JSON can carry: no undefined and no NaN anywhere in it.\<close>

fun is_json :: "jsval \<Rightarrow> bool" where
  "is_json JUndef = False"
| "is_json (JNumber NaN) = False"
| "is_json (JArr xs) = list_all is_json xs"
| "is_json (JObj kvs) = list_all (\<lambda>kv. is_json (snd kv)) kvs"
| "is_json v = True"

type_synonym chat_state_table = "string \<rightharpoonup> jsval"

definition snapshot :: "jsval \<Rightarrow> jsval \<Rightarrow> jsval" where
  "snapshot the_projects the_chats = JObj [(''projects'', the_projects), (''chats'', the_chats)]"

text \<open>GET /api/chat-state, after \<^verbatim>\<open>requireAuth\<close>.\<close>

definition get_chat_state :: "chat_state_table \<Rightarrow> jsval response" where
  "get_chat_state db =
     (case db ''default'' of
        None \<Rightarrow> Success (snapshot (JArr []) (JArr []))
      | Some data \<Rightarrow> Success data)"

text \<open>
  POST /api/chat-state, after \<^verbatim>\<open>requireAuth\<close>: the response and the table afterwards.
  Destructuring a body that is null throws, and the \<^verbatim>\<open>catch\<close> answers 500. The statement
  \<^verbatim>\<open>INSERT ... ON CONFLICT(id) DO UPDATE SET data = excluded.data\<close> writes the row
  \<^verbatim>\<open>default\<close>, new or not.
\<close>

definition post_chat_state :: "chat_state_table \<Rightarrow> jsval \<Rightarrow> jsval response \<times> chat_state_table" where
  "post_chat_state db body =
     (case get_prop body ''projects'' of
        Inl e \<Rightarrow> (Failure 500 ''Failed to save chat state.'' NoDetail, db)
      | Inr the_projects \<Rightarrow>
         (let the_chats = read_prop body ''chats''
          in if \<not> truthy the_projects \<or> \<not> truthy the_chats
             then (Failure 400
                     (''Missing '' @ [CHR 0x27] @ ''projects'' @ [CHR 0x27] @ '' or '' @
                      [CHR 0x27] @ ''chats'' @ [CHR 0x27] @ '' in body.'')
                     NoDetail, db)
             else (let data = json_roundtrip (snapshot the_projects the_chats)
                   in (Success (JObj [(''success'', JBool True)]),
                       db(''default'' \<mapsto> data)))))"

section \<open>The client\<close>

text \<open>
  The state of \<^verbatim>\<open>App\<close> that the statements are about, with the browser's
  \<^verbatim>\<open>localStorage\<close> (its texts again modelled by the values they parse to) and the clock
  of the browser. Projects, chats and messages are the objects the client builds.
\<close>

record client =
  token :: jsval
  activeBrand :: string
  activeMode :: string
  input :: string
  messages :: "jsval list"
  models :: "descriptor list"
  selectedModel :: jsval
  selectedVideoModel :: string
  isLoadingModels :: bool
  modelError :: jsval
  projects :: "jsval list"
  chats :: "jsval list"
  activeChatId :: jsval
  localStorage :: "string \<rightharpoonup> jsval"
  clock :: int

text \<open>The effect that follows a change of mode, of the model list or of the selection.\<close>

definition mode_effect :: "client \<Rightarrow> client" where
  "mode_effect c =
     (if models c = [] then c
      else
        (case filteredModels (activeMode c) (models c) of
           [] \<Rightarrow> c
         | first # others \<Rightarrow>
            (if \<not> list_ex (\<lambda>m. strict_equals (model_id m) (selectedModel c)) (first # others)
             then c\<lparr>selectedModel := model_id first\<rparr>
             else c)))"

definition selectedModelObj :: "client \<Rightarrow> descriptor option" where
  "selectedModelObj c =
     find (\<lambda>m. strict_equals (model_id m) (selectedModel c))
       (filteredModels (activeMode c) (models c))"

text \<open>Whether the header shows \<^verbatim>\<open>No models available for this mode.\<close>; in video mode
  the header shows the video picker instead.\<close>

definition no_models_notice :: "client \<Rightarrow> bool" where
  "no_models_notice c =
     (\<not> isVideoMode (activeMode c) \<and> \<not> isLoadingModels c \<and> \<not> truthy (modelError c) \<and>
      filteredModels (activeMode c) (models c) = [])"

text \<open>
  \<^verbatim>\<open>handleSend\<close>, up to the request it sends. The body carries the trimmed input and the
  client's clock as an ISO text, which the server reads back as the same instant.
\<close>

datatype sent =
    NotSent
  | NoModelNotice
  | PostVideo string string
  | PostImage ai_body
  | PostAi ai_body

definition handleSend :: "client \<Rightarrow> sent" where
  "handleSend c =
     (let trimmed = js_trim (input c)
      in if trimmed = [] then NotSent
         else if \<not> truthy (token c) then NotSent
         else if isVideoMode (activeMode c) then PostVideo trimmed (selectedVideoModel c)
         else if \<not> truthy (selectedModel c) then NoModelNotice
         else
           (let body = \<lparr> body_prompt = JStr trimmed, body_brand = activeBrand c,
                          body_mode = activeMode c, body_modelId = selectedModel c,
                          body_model = selectedModel c,
                          body_clientDate = Instant (clock c) \<rparr>
            in if isImageMode (activeMode c) \<and> filteredModels (activeMode c) (models c) \<noteq> []
               then PostImage body
               else PostAi body))"

text \<open>
  \<^verbatim>\<open>getChatTitleFromMessages\<close> and \<^verbatim>\<open>setMessagesAndPersist\<close>: the messages of the active
  chat are replaced and its title recomputed. \<open>set_prop\<close> is the object spread
  \<^verbatim>\<open>{...chat, k: v}\<close>. Chats and messages are objects, and the text of a user message
  is a string, as the client builds them; the throw of \<^verbatim>\<open>trim\<close> on a text that is truthy
  and not a string is not modelled (the fallback stands in its place).
\<close>

definition set_prop :: "jsval \<Rightarrow> string \<Rightarrow> jsval \<Rightarrow> jsval" where
  "set_prop v k x =
     (case v of
        JObj kvs \<Rightarrow>
          JObj (if k \<in> fst ` set kvs then map (\<lambda>kv. if fst kv = k then (k, x) else kv) kvs
                else kvs @ [(k, x)])
      | _ \<Rightarrow> JObj [(k, x)])"

definition getChatTitleFromMessages :: "jsval list \<Rightarrow> jsval \<Rightarrow> jsval" where
  "getChatTitleFromMessages msgs fallback =
     (case find (\<lambda>m. strict_equals (read_prop m ''role'') (JStr ''user'')) msgs of
        None \<Rightarrow> fallback
      | Some firstUser \<Rightarrow>
         (case read_prop firstUser ''text'' of
            JStr text \<Rightarrow>
              (let trimmed = js_trim text
               in if trimmed = [] then fallback
                  else if length trimmed > 40 then JStr (take 37 trimmed @ ''...'')
                  else JStr trimmed)
          | _ \<Rightarrow> fallback))"

definition setMessagesAndPersist :: "jsval list \<Rightarrow> client \<Rightarrow> client" where
  "setMessagesAndPersist newMessages c =
     c\<lparr> messages := newMessages,
        chats :=
          map (\<lambda>chat.
                 if strict_equals (read_prop chat ''id'') (activeChatId c)
                 then set_prop (set_prop chat ''messages'' (JArr newMessages)) ''title''
                        (getChatTitleFromMessages newMessages (read_prop chat ''title''))
                 else chat)
              (chats c) \<rparr>"

text \<open>
  The effect under the heading SAVE, which runs after every change of \<^verbatim>\<open>projects\<close> or
  \<^verbatim>\<open>chats\<close>: the client afterwards, and the bodies it posts to /api/chat-state. It writes
  two keys of \<^verbatim>\<open>localStorage\<close> and posts nothing; no other code of the client posts to
  /api/chat-state either.
\<close>

definition save_effect :: "client \<Rightarrow> client \<times> jsval list" where
  "save_effect c =
     (c\<lparr> localStorage :=
           (localStorage c)
             (''byteSizeProjects'' \<mapsto> json_roundtrip (JArr (projects c)),
              ''byteSizeChats'' \<mapsto> json_roundtrip (JArr (chats c))) \<rparr>,
      [])"

text \<open>The table after the server has handled a list of posted bodies.\<close>

definition store_after :: "chat_state_table \<Rightarrow> jsval list \<Rightarrow> chat_state_table" where
  "store_after db bodies = foldl (\<lambda>d b. snd (post_chat_state d b)) db bodies"

text \<open>Sample data: the descriptors of the sample catalogue's text and image models, and a
  client logged in, in chat mode, with one chat and a text model selected.\<close>

definition image_descriptor :: descriptor where
  "image_descriptor =
     \<lparr> model_id = JStr ''acme/paint'', model_name = JStr ''Paint'', description = JUndef,
       pricing = \<lparr> prompt = Num 0, completion = Num 0 \<rparr>,
       isFree = True,
       outputModalities = JArr [JStr ''image'', JStr ''text''], inputModalities = JArr [],
       isImageCapable = True, isVideoCapable = False \<rparr>"

definition welcome_message :: jsval where
  "welcome_message = JObj [(''role'', JStr ''system''), (''text'', JStr ''WELCOME'')]"

definition sample_chat :: jsval where
  "sample_chat =
     JObj [(''id'', JStr ''c1''), (''projectId'', JNull), (''title'', JStr ''New chat''),
           (''messages'', JArr [welcome_message]), (''createdAt'', JNumber (Num 1766741400000))]"

definition sample_client :: client where
  "sample_client =
     \<lparr> token = JStr ''session'', activeBrand = ''DSSA'', activeMode = ''Chat / Brain'',
       input = ''how many days until christmas'', messages = [welcome_message],
       models = [paid_descriptor], selectedModel = JStr ''acme/text-1'',
       selectedVideoModel = ''fal-ai/ovi'', isLoadingModels = False, modelError = JNull,
       projects = [], chats = [sample_chat], activeChatId = JStr ''c1'',
       localStorage = Map.empty, clock = 1766741400000 \<rparr>"

definition turn_messages :: "jsval list" where
  "turn_messages =
     [welcome_message,
      JObj [(''role'', JStr ''user''), (''text'', JStr ''Hello''),
            (''meta'', JObj [(''brand'', JStr ''DSSA''), (''mode'', JStr ''Chat / Brain'')])],
      JObj [(''role'', JStr ''assistant''), (''text'', JStr ''Hi.''), (''imageUrl'', JNull)]]"

definition chat_after_turn :: jsval where
  "chat_after_turn =
     JObj [(''id'', JStr ''c1''), (''projectId'', JNull), (''title'', JStr ''Hello''),
           (''messages'', JArr turn_messages), (''createdAt'', JNumber (Num 1766741400000))]"

definition image_client :: client where
  "image_client =
     sample_client\<lparr> activeMode := ''Image Prompts'',
                    models := [paid_descriptor, image_descriptor],
                    selectedModel := JStr ''acme/paint'' \<rparr>"

definition image_turn_body :: ai_body where
  "image_turn_body =
     \<lparr> body_prompt = JStr ''how many days until christmas'',
       body_brand = ''DSSA'', body_mode = ''Image Prompts'',
       body_modelId = JStr ''acme/paint'', body_model = JStr ''acme/paint'',
       body_clientDate = Instant 1766741400000 \<rparr>"

section \<open>Ranking\<close>

text \<open>
  On descriptors whose prompt price is a number, the comparator is the order of
  \<open>rank_key\<close>, and the sort is the library's stable sort by that key.
\<close>

lemma positive_compare_models:
  assumes "prompt (pricing x) \<noteq> NaN" "prompt (pricing y) \<noteq> NaN"
  shows "positive (compare_models x y) \<longleftrightarrow> \<not> rank_key x \<le> rank_key y"
proof -
  obtain a b where ab: "prompt (pricing x) = Num a" "prompt (pricing y) = Num b"
    using assms by (cases "prompt (pricing x)"; cases "prompt (pricing y)") auto
  show ?thesis
    by (auto simp: compare_models_def rank_key_def ab less_eq_prod_def)
qed

lemma insort_by_compare_models:
  assumes "prompt (pricing x) \<noteq> NaN" "\<forall>d \<in> set ys. prompt (pricing d) \<noteq> NaN"
  shows "insort_by compare_models x ys = insort_key rank_key x ys"
  using assms by (induction ys) (simp_all add: positive_compare_models)

lemma js_sort_compare_models:
  assumes "\<forall>d \<in> set ds. prompt (pricing d) \<noteq> NaN"
  shows "js_sort compare_models ds = sort_key rank_key ds"
  using assms
proof (induction ds)
  case Nil
  then show ?case by (simp add: js_sort_def)
next
  case (Cons d ds)
  then have ih: "foldr (insort_by compare_models) ds [] = sort_key rank_key ds"
    by (simp add: js_sort_def)
  have "\<forall>e \<in> set (sort_key rank_key ds). prompt (pricing e) \<noteq> NaN"
    using Cons.prems by simp
  then show ?case
    using Cons.prems by (simp add: js_sort_def ih insort_by_compare_models sort_key_def)
qed

lemma rank_key_le:
  assumes "prompt (pricing a) \<noteq> NaN" "prompt (pricing b) \<noteq> NaN" "rank_key a \<le> rank_key b"
  shows "(isFree b \<longrightarrow> isFree a) \<and>
         (isFree a = isFree b \<longrightarrow> num_le (prompt (pricing a)) (prompt (pricing b)))"
proof -
  obtain x y where ab: "prompt (pricing a) = Num x" "prompt (pricing b) = Num y"
    using assms by (cases "prompt (pricing a)"; cases "prompt (pricing b)") auto
  show ?thesis
    using assms(3) by (auto simp: rank_key_def ab less_eq_prod_def)
qed

text \<open>
  C6. \<open>rank\<close> (the sort done on both listings) is a total, stable ordering. For every
  list of descriptors whose prompt prices are numbers: the result is a rearrangement of
  the input; no paid descriptor comes before a free one, and of two descriptors of equal
  freeness the earlier has the lower or equal prompt price; descriptors that tie (same
  freeness, same prompt price) keep the order they had in the input; and ranking the
  ranked list again changes nothing, so repeated calls give the same ordering.
\<close>

theorem rank_total_stable:
  assumes "\<forall>d \<in> set ds. prompt (pricing d) \<noteq> NaN"
  shows "mset (rank ds) = mset ds \<and>
         sorted_wrt (\<lambda>a b. (isFree b \<longrightarrow> isFree a) \<and>
                          (isFree a = isFree b \<longrightarrow> num_le (prompt (pricing a)) (prompt (pricing b))))
                    (rank ds) \<and>
         (\<forall>f p. filter (\<lambda>d. isFree d = f \<and> prompt (pricing d) = p) (rank ds) =
                filter (\<lambda>d. isFree d = f \<and> prompt (pricing d) = p) ds) \<and>
         rank (rank ds) = rank ds"
proof -
  have eq: "rank ds = sort_key rank_key ds"
    by (simp add: rank_def js_sort_compare_models assms)
  have nn: "\<forall>d \<in> set (rank ds). prompt (pricing d) \<noteq> NaN"
    using assms by (simp add: eq)
  have perm: "mset (rank ds) = mset ds"
    by (simp add: eq)
  have "sorted (map rank_key (rank ds))"
    by (simp add: eq)
  then have "sorted_wrt (\<lambda>a b. rank_key a \<le> rank_key b) (rank ds)"
    by (simp add: sorted_map)
  then have srt: "sorted_wrt (\<lambda>a b. (isFree b \<longrightarrow> isFree a) \<and>
                          (isFree a = isFree b \<longrightarrow> num_le (prompt (pricing a)) (prompt (pricing b))))
                    (rank ds)"
    by (rule sorted_wrt_mono_rel[rotated]) (use nn rank_key_le in blast)
  have stab: "filter (\<lambda>d. isFree d = f \<and> prompt (pricing d) = p) (rank ds) =
              filter (\<lambda>d. isFree d = f \<and> prompt (pricing d) = p) ds" for f p
  proof (cases p)
    case NaN
    have "filter (\<lambda>d. isFree d = f \<and> prompt (pricing d) = p) xs = []"
      if "\<forall>d \<in> set xs. prompt (pricing d) \<noteq> NaN" for xs :: "descriptor list"
      using that NaN by (induction xs) auto
    then show ?thesis using nn assms by simp
  next
    case (Num r)
    have key: "filter (\<lambda>d. isFree d = f \<and> prompt (pricing d) = p) xs =
               filter (\<lambda>d. rank_key d = (\<not> f, r)) xs"
      if "\<forall>d \<in> set xs. prompt (pricing d) \<noteq> NaN" for xs :: "descriptor list"
    proof (rule filter_cong[OF refl])
      fix d assume "d \<in> set xs"
      then have "prompt (pricing d) \<noteq> NaN" using that by blast
      then show "(isFree d = f \<and> prompt (pricing d) = p) = (rank_key d = (\<not> f, r))"
        using Num by (cases "prompt (pricing d)") (auto simp: rank_key_def)
    qed
    have "filter (\<lambda>d. isFree d = f \<and> prompt (pricing d) = p) (rank ds) =
          filter (\<lambda>d. rank_key d = (\<not> f, r)) (rank ds)"
      by (rule key[OF nn])
    also have "\<dots> = filter (\<lambda>d. rank_key d = (\<not> f, r)) ds"
      unfolding eq by (rule sort_key_stable)
    also have "\<dots> = filter (\<lambda>d. isFree d = f \<and> prompt (pricing d) = p) ds"
      by (rule key[OF assms, symmetric])
    finally show ?thesis .
  qed
  have idem: "rank (rank ds) = rank ds"
  proof -
    have "rank (rank ds) = sort_key rank_key (rank ds)"
      using nn by (simp add: rank_def js_sort_compare_models)
    also have "\<dots> = rank ds"
      by (rule sort_key_id_if_sorted) (simp add: eq)
    finally show ?thesis .
  qed
  show ?thesis using perm srt stab idem by blast
qed


theorem rank_total_stable_witness:
  "mset (rank [paid_descriptor, free_descriptor]) = mset [paid_descriptor, free_descriptor] \<and>
   rank (rank [paid_descriptor, free_descriptor]) = rank [paid_descriptor, free_descriptor]"
proof -
  have h: "\<forall>d \<in> set [paid_descriptor, free_descriptor]. prompt (pricing d) \<noteq> NaN"
    by (simp add: paid_descriptor_def free_descriptor_def)
  show ?thesis
    using rank_total_stable[OF h] by blast
qed

section \<open>The normalizer\<close>

lemma Number_js_primitive: "primitive v \<Longrightarrow> \<exists>n. Number_js eng v = Some n"
  by (cases v) auto

lemma primitive_js_or_zero: "primitive v \<Longrightarrow> primitive (js_or v (JNumber (Num 0)))"
  by (simp add: js_or_def)

lemma read_prop_js_or_empty:
  "read_prop (js_or v (JObj [])) k = opt_prop v k"
  by (cases v) (auto simp: js_or_def opt_prop_def nullish_def)

lemma map_model_Inr:
  assumes "map_model eng m = Inr d"
  shows "\<not> nullish m" and "normalized m d" and "isImageCapable d = has_image d"
    and "isVideoCapable d = has_video d"
proof -
  show nn: "\<not> nullish m"
    using assms by (auto simp: map_model_def get_prop_def split: if_splits)
  obtain p c where
    p: "Number_js eng (js_or (price_field m ''prompt'') (JNumber (Num 0))) = Some p" and
    c: "Number_js eng (js_or (price_field m ''completion'') (JNumber (Num 0))) = Some c" and
    d: "d = \<lparr> model_id = read_prop m ''id'',
             model_name = read_prop m ''name'',
             description = read_prop m ''description'',
             pricing = \<lparr> prompt = p, completion = c \<rparr>,
             isFree = (p = Num 0 \<and> c = Num 0),
             outputModalities = js_or (js_or (arch_field m ''output_modalities'')
                                     (read_prop m ''output_modalities'')) (JArr []),
             inputModalities = js_or (js_or (arch_field m ''input_modalities'')
                                     (read_prop m ''input_modalities'')) (JArr []),
             isImageCapable =
               (isArray (js_or (js_or (arch_field m ''output_modalities'')
                                     (read_prop m ''output_modalities'')) (JArr [])) \<and>
                js_includes (js_or (js_or (arch_field m ''output_modalities'')
                                     (read_prop m ''output_modalities'')) (JArr [])) ''image''),
             isVideoCapable =
               ((isArray (js_or (js_or (arch_field m ''output_modalities'')
                                     (read_prop m ''output_modalities'')) (JArr [])) \<and>
                js_includes (js_or (js_or (arch_field m ''output_modalities'')
                                     (read_prop m ''output_modalities'')) (JArr [])) ''video'') \<or>
                (isArray (js_or (js_or (arch_field m ''input_modalities'')
                                     (read_prop m ''input_modalities'')) (JArr [])) \<and>
                js_includes (js_or (js_or (arch_field m ''input_modalities'')
                                     (read_prop m ''input_modalities'')) (JArr [])) ''video'')) \<rparr>"
    using assms nn
    by (auto simp: map_model_def get_prop_def Let_def read_prop_js_or_empty price_field_def
        arch_field_def split: option.splits)
  have zero: "\<not> truthy v \<Longrightarrow> Number_js eng (js_or v (JNumber (Num 0))) = Some (Num 0)" for v
    by (simp add: js_or_def)
  have pd: "price_default (price_field m ''prompt'') p"
    using p zero[of "price_field m ''prompt''"] by (auto simp: price_default_def)
  have cd: "price_default (price_field m ''completion'') c"
    using c zero[of "price_field m ''completion''"] by (auto simp: price_default_def)
  show "normalized m d"
    using pd cd by (simp add: normalized_def modality_fallback_def d js_or_def)
  show "isImageCapable d = has_image d"
    by (simp add: d has_image_def)
  show "isVideoCapable d = has_video d"
    by (simp add: d has_video_def)
qed

lemma map_model_readable:
  assumes "readable m"
  shows "\<exists>d. map_model eng m = Inr d"
proof -
  have nn: "\<not> nullish m" using assms by (simp add: readable_def)
  obtain p where p: "Number_js eng (js_or (price_field m ''prompt'') (JNumber (Num 0))) = Some p"
    using Number_js_primitive[OF primitive_js_or_zero] assms by (auto simp: readable_def)
  obtain c where c: "Number_js eng (js_or (price_field m ''completion'') (JNumber (Num 0))) = Some c"
    using Number_js_primitive[OF primitive_js_or_zero] assms by (auto simp: readable_def)
  show ?thesis
    using nn p c
    by (simp add: map_model_def get_prop_def Let_def read_prop_js_or_empty price_field_def)
qed

lemma map_all_Inr:
  "map_all f xs = Inr ys \<Longrightarrow> list_all2 (\<lambda>x y. f x = Inr y) xs ys"
  by (induction xs arbitrary: ys) (auto split: sum.splits)

lemma map_all_total:
  "\<forall>x \<in> set xs. \<exists>y. f x = Inr y \<Longrightarrow> \<exists>ys. map_all f xs = Inr ys"
  by (induction xs) (auto split: sum.splits)

lemma mapped_models_data:
  "mapped_models eng (Inr (JObj [(''data'', JArr ms)])) = map_all (map_model eng) ms"
  by (simp add: mapped_models_def get_prop_def nullish_def js_or_def)

lemma mapped_models_Inr:
  assumes "mapped_models eng upstream = Inr mapped"
  shows "\<exists>ms. list_all2 (\<lambda>m d. map_model eng m = Inr d) ms mapped"
  using assms
  by (auto simp: mapped_models_def split: sum.splits jsval.splits dest: map_all_Inr)

text \<open>
  C8 (as stated, refuted). The normalizer is not total, and no record is ever dropped: a
  null record makes \<^verbatim>\<open>m.pricing\<close> throw, the throw leaves \<^verbatim>\<open>models.map\<close>, and the whole
  listing fails with status 500, also for the records that were fine.
\<close>

theorem normalizer_null_record_aborts:
  "map_model sample_engine JNull = Inl TypeError \<and>
   get_models sample_engine (Inr (JObj [(''data'', JArr [raw_free_model, JNull])])) =
     Failure 500 ''Failed to load models from OpenRouter.'' NoDetail"
  by (simp add: map_model_def get_prop_def nullish_def get_models_def mapped_models_def
      js_or_def raw_free_model_def Let_def)

text \<open>
  C8 (amended). For raw records that are not null and whose two price fields are absent
  or primitive, the normalizer does not throw, and the listing has exactly one descriptor
  for each raw record, in order. In each descriptor a price whose raw field is missing
  (or falsy) is 0, and each modality field is the one under \<^verbatim>\<open>architecture\<close> when that is
  there, else the top-level one, else the empty array.
\<close>

theorem normalizer_total_on_readable:
  assumes "\<forall>m \<in> set ms. readable m"
  shows "\<exists>ds. mapped_models eng (Inr (JObj [(''data'', JArr ms)])) = Inr ds \<and>
              length ds = length ms \<and> list_all2 normalized ms ds"
proof -
  have "\<forall>m \<in> set ms. \<exists>d. map_model eng m = Inr d"
    using assms map_model_readable by blast
  then obtain ds where ds: "map_all (map_model eng) ms = Inr ds"
    using map_all_total by blast
  have "list_all2 (\<lambda>m d. map_model eng m = Inr d) ms ds"
    using ds by (rule map_all_Inr)
  then have "list_all2 normalized ms ds"
    by (rule list_all2_mono) (rule map_model_Inr(2))
  then show ?thesis
    using ds by (auto simp: mapped_models_data dest: list_all2_lengthD)
qed

lemma readable_samples:
  "readable raw_text_model" "readable raw_free_model" "readable raw_image_model"
  "readable raw_video_model"
  by (simp_all add: readable_def nullish_def price_field_def opt_prop_def raw_text_model_def
      raw_free_model_def raw_image_model_def raw_video_model_def)

theorem normalizer_total_on_readable_witness:
  "\<exists>ds. mapped_models sample_engine (Inr sample_catalogue) = Inr ds \<and>
        length ds = 4 \<and>
        list_all2 normalized [raw_text_model, raw_free_model, raw_image_model, raw_video_model] ds"
proof -
  have h: "\<forall>m \<in> set [raw_text_model, raw_free_model, raw_image_model, raw_video_model].
             readable m"
    by (simp add: readable_samples)
  show ?thesis
    using normalizer_total_on_readable[OF h, of sample_engine]
    by (simp add: sample_catalogue_def eval_nat_numeral)
qed

section \<open>Filtering by capability\<close>

lemma mapped_models_flags:
  assumes "mapped_models eng upstream = Inr mapped" "d \<in> set mapped"
  shows "isImageCapable d = has_image d" "isVideoCapable d = has_video d"
proof -
  obtain ms where "list_all2 (\<lambda>m d. map_model eng m = Inr d) ms mapped"
    using mapped_models_Inr[OF assms(1)] by blast
  then obtain m where "map_model eng m = Inr d"
    using assms(2) by (auto simp: in_set_conv_nth list_all2_conv_all_nth)
  then show "isImageCapable d = has_image d" "isVideoCapable d = has_video d"
    by (rule map_model_Inr(3), rule map_model_Inr(4))
qed

text \<open>
  C7. On the descriptors the normalizer produced, the filter for image mode keeps exactly
  those with \<^verbatim>\<open>"image"\<close> among their output modalities and the filter for video mode
  exactly those with \<^verbatim>\<open>"video"\<close> among their output or input modalities; what a filter
  returns is a subsequence of its input (the descriptors themselves, unchanged, in order);
  and the video listing is the ranked video filter of all descriptors.
\<close>

theorem filter_by_capability:
  assumes "mapped_models eng upstream = Inr mapped"
  shows "filteredModels ''Image Prompts'' mapped = filter has_image mapped \<and>
         filteredModels ''Video Prompts'' mapped = filter has_video mapped \<and>
         subseq (filteredModels mode mapped) mapped \<and>
         get_video_models eng upstream = Success (rank (filteredModels ''Video Prompts'' mapped))"
proof -
  have img: "filteredModels ''Image Prompts'' mapped = filter has_image mapped"
    unfolding filteredModels_def isImageMode_def isVideoMode_def
    by (rule filter_cong[OF refl]) (simp add: mapped_models_flags[OF assms])
  have vid: "filteredModels ''Video Prompts'' mapped = filter has_video mapped"
    unfolding filteredModels_def isImageMode_def isVideoMode_def
    by (rule filter_cong[OF refl]) (simp add: mapped_models_flags[OF assms])
  have sub: "subseq (filteredModels mode mapped) mapped"
    by (simp add: filteredModels_def)
  have "filteredModels ''Video Prompts'' mapped = filter isVideoCapable mapped"
    by (simp add: filteredModels_def isImageMode_def isVideoMode_def)
  then have lst: "get_video_models eng upstream =
                  Success (rank (filteredModels ''Video Prompts'' mapped))"
    by (simp add: get_video_models_def assms rank_def)
  show ?thesis using img vid sub lst by blast
qed

theorem filter_by_capability_witness:
  "\<exists>mapped. mapped_models sample_engine (Inr sample_catalogue) = Inr mapped \<and>
      filteredModels ''Image Prompts'' mapped = filter has_image mapped \<and>
      filteredModels ''Video Prompts'' mapped = filter has_video mapped \<and>
      get_video_models sample_engine (Inr sample_catalogue) =
        Success (rank (filteredModels ''Video Prompts'' mapped))"
proof -
  have "\<forall>m \<in> set [raw_text_model, raw_free_model, raw_image_model, raw_video_model].
          \<exists>d. map_model sample_engine m = Inr d"
    by (simp add: readable_samples map_model_readable)
  then obtain mapped where
    "map_all (map_model sample_engine)
       [raw_text_model, raw_free_model, raw_image_model, raw_video_model] = Inr mapped"
    using map_all_total by blast
  then have m: "mapped_models sample_engine (Inr sample_catalogue) = Inr mapped"
    by (simp add: sample_catalogue_def mapped_models_data)
  show ?thesis
    using m filter_by_capability[OF m] by blast
qed

section \<open>The calendar\<close>

















section \<open>The conversation store\<close>

lemma json_roundtrip_id: "is_json v \<Longrightarrow> json_roundtrip v = v"
proof (induction v rule: json_roundtrip.induct)
  case (3 xs)
  then show ?case by (simp add: list_all_iff map_idI)
next
  case (4 kvs)
  have ne: "\<forall>kv \<in> set kvs. snd kv \<noteq> JUndef"
    using 4(2) by (auto simp: list_all_iff)
  then have f: "filter (\<lambda>kv. snd kv \<noteq> JUndef) kvs = kvs"
    by (simp add: filter_id_conv)
  have "map (\<lambda>kv. (fst kv, json_roundtrip (snd kv))) kvs = kvs"
  proof (rule map_idI)
    fix kv assume kv: "kv \<in> set kvs"
    then have "json_roundtrip (snd kv) = snd kv"
      using 4 ne by (auto simp: list_all_iff)
    then show "(fst kv, json_roundtrip (snd kv)) = kv" by simp
  qed
  then show ?case by (simp add: f)
qed simp_all

text \<open>
  C9. For every snapshot whose projects and chats are arrays of JSON values, the empty
  arrays included, saving answers success and replaces the row, and a load right after
  returns exactly the snapshot saved; a load from a table with no row returns the
  snapshot with no projects and no chats.
\<close>

theorem save_then_load:
  assumes "list_all is_json ps" "list_all is_json cs"
  shows "post_chat_state db (snapshot (JArr ps) (JArr cs)) =
           (Success (JObj [(''success'', JBool True)]),
            db(''default'' \<mapsto> snapshot (JArr ps) (JArr cs))) \<and>
         get_chat_state (snd (post_chat_state db (snapshot (JArr ps) (JArr cs)))) =
           Success (snapshot (JArr ps) (JArr cs)) \<and>
         get_chat_state Map.empty = Success (snapshot (JArr []) (JArr []))"
proof -
  have "is_json (snapshot (JArr ps) (JArr cs))"
    using assms by (simp add: snapshot_def)
  then have rt: "json_roundtrip (snapshot (JArr ps) (JArr cs)) = snapshot (JArr ps) (JArr cs)"
    by (rule json_roundtrip_id)
  have post: "post_chat_state db (snapshot (JArr ps) (JArr cs)) =
           (Success (JObj [(''success'', JBool True)]),
            db(''default'' \<mapsto> snapshot (JArr ps) (JArr cs)))"
  proof -
    have g: "get_prop (snapshot (JArr ps) (JArr cs)) ''projects'' = Inr (JArr ps)"
      and c: "read_prop (snapshot (JArr ps) (JArr cs)) ''chats'' = JArr cs"
      by (simp_all add: snapshot_def get_prop_def nullish_def)
    show ?thesis
      unfolding post_chat_state_def Let_def g c by (simp add: rt)
  qed
  show ?thesis
    by (simp add: post get_chat_state_def)
qed

theorem save_then_load_witness:
  "get_chat_state (snd (post_chat_state Map.empty (snapshot (JArr []) (JArr [sample_chat])))) =
     Success (snapshot (JArr []) (JArr [sample_chat]))"
proof -
  have h: "list_all is_json []" "list_all is_json [sample_chat]"
    by (simp_all add: sample_chat_def welcome_message_def)
  show ?thesis
    using save_then_load[OF h, of Map.empty] by blast
qed

section \<open>Persistence by the client\<close>

text \<open>
  C1 (the code departs from the claim). A turn is completed on the sample client: the
  user message and the reply are put into the active chat by \<^verbatim>\<open>setMessagesAndPersist\<close>, and
  the save effect runs. The effect posts nothing to the store: the two lists are written
  to \<^verbatim>\<open>localStorage\<close> only, the table is as it was, and a load returns the empty
  snapshot, not the chat of the client.
\<close>

theorem save_effect_posts_nothing:
  "snd (save_effect (setMessagesAndPersist turn_messages sample_client)) = [] \<and>
   localStorage (fst (save_effect (setMessagesAndPersist turn_messages sample_client)))
     ''byteSizeChats'' = Some (JArr [chat_after_turn]) \<and>
   get_chat_state
     (store_after Map.empty
        (snd (save_effect (setMessagesAndPersist turn_messages sample_client)))) =
     Success (snapshot (JArr []) (JArr []))"
  by (simp add: save_effect_def store_after_def get_chat_state_def setMessagesAndPersist_def
      sample_client_def sample_chat_def strict_equals_def set_prop_def turn_messages_def
      getChatTitleFromMessages_def welcome_message_def chat_after_turn_def js_trim_def
      is_space_def)

theorem save_effect_posts_nothing_witness:
  "snd (save_effect (setMessagesAndPersist turn_messages sample_client)) = []"
  using save_effect_posts_nothing by blast

section \<open>Selection of a model when the mode changes\<close>

text \<open>
  C4 (as stated, refuted). The sample client has one model, which produces text only, and
  has it selected. When the mode becomes Image Prompts the filtered list is empty, and
  the effect returns before it touches the selection: the text model stays selected. In
  Video Prompts the list is empty as well, the selection stays, and the notice is not
  shown.
\<close>

theorem empty_list_keeps_selection:
  "filteredModels ''Image Prompts'' (models sample_client) = [] \<and>
   selectedModel (mode_effect (sample_client\<lparr>activeMode := ''Image Prompts''\<rparr>)) =
     JStr ''acme/text-1'' \<and>
   selectedModel (mode_effect (sample_client\<lparr>activeMode := ''Video Prompts''\<rparr>)) =
     JStr ''acme/text-1'' \<and>
   no_models_notice (mode_effect (sample_client\<lparr>activeMode := ''Video Prompts''\<rparr>)) = False"
  by (simp add: mode_effect_def filteredModels_def isImageMode_def isVideoMode_def
      sample_client_def paid_descriptor_def no_models_notice_def)

text \<open>
  C4 (amended). After a change of mode, with the list filtered for the new mode: when the
  list is not empty and the selected model is not in it, its first entry becomes the
  selection; when the selected model is in it, the selection stays; when the list is
  empty, the stored selection stays as it was, no descriptor is shown as selected, and
  the notice \<^verbatim>\<open>No models available for this mode.\<close> is shown exactly when the mode is not
  Video Prompts, the models are not loading and there is no model error.
\<close>

theorem mode_change_selection:
  fixes c :: client and mode :: string
  defines "c' \<equiv> mode_effect (c\<lparr>activeMode := mode\<rparr>)"
    and "filtered \<equiv> filteredModels mode (models c)"
  shows "(filtered \<noteq> [] \<and> \<not> list_ex (\<lambda>m. strict_equals (model_id m) (selectedModel c)) filtered
            \<longrightarrow> selectedModel c' = model_id (hd filtered)) \<and>
         (list_ex (\<lambda>m. strict_equals (model_id m) (selectedModel c)) filtered
            \<longrightarrow> selectedModel c' = selectedModel c) \<and>
         (filtered = [] \<longrightarrow>
            selectedModel c' = selectedModel c \<and> selectedModelObj c' = None \<and>
            no_models_notice c' =
              (\<not> isVideoMode mode \<and> \<not> isLoadingModels c \<and> \<not> truthy (modelError c)))"
proof -
  have ne: "filtered \<noteq> [] \<Longrightarrow> models c \<noteq> []"
    by (auto simp: filtered_def filteredModels_def)
  have a: "selectedModel c' = model_id (hd filtered)"
    if "filtered \<noteq> []" "\<not> list_ex (\<lambda>m. strict_equals (model_id m) (selectedModel c)) filtered"
    using that ne unfolding c'_def filtered_def mode_effect_def
    by (cases "filteredModels mode (models c)") simp_all
  have b: "selectedModel c' = selectedModel c"
    if "list_ex (\<lambda>m. strict_equals (model_id m) (selectedModel c)) filtered"
    using that unfolding c'_def filtered_def mode_effect_def
    by (cases "filteredModels mode (models c)") auto
  have e: "c' = c\<lparr>activeMode := mode\<rparr>" if "filtered = []"
    using that unfolding c'_def filtered_def mode_effect_def by simp
  have d: "selectedModel c' = selectedModel c \<and> selectedModelObj c' = None \<and>
           no_models_notice c' =
             (\<not> isVideoMode mode \<and> \<not> isLoadingModels c \<and> \<not> truthy (modelError c))"
    if "filtered = []"
    using that unfolding e[OF that] filtered_def
    by (simp add: selectedModelObj_def no_models_notice_def)
  show ?thesis using a b d by blast
qed

theorem mode_change_selection_witness:
  "selectedModel
     (mode_effect
        (sample_client\<lparr>models := [paid_descriptor, image_descriptor],
                       activeMode := ''Image Prompts''\<rparr>)) = JStr ''acme/paint'' \<and>
   selectedModelObj (mode_effect (sample_client\<lparr>activeMode := ''Image Prompts''\<rparr>)) = None \<and>
   no_models_notice (mode_effect (sample_client\<lparr>activeMode := ''Image Prompts''\<rparr>)) = True"
proof -
  let ?c = "sample_client\<lparr>models := [paid_descriptor, image_descriptor]\<rparr>"
  have f: "filteredModels ''Image Prompts'' (models ?c) = [image_descriptor]"
    by (simp add: filteredModels_def isImageMode_def paid_descriptor_def image_descriptor_def)
  have n: "\<not> list_ex (\<lambda>m. strict_equals (model_id m) (selectedModel ?c)) [image_descriptor]"
    by (simp add: strict_equals_def image_descriptor_def sample_client_def)
  have "selectedModel (mode_effect (?c\<lparr>activeMode := ''Image Prompts''\<rparr>)) =
        model_id (hd [image_descriptor])"
    using mode_change_selection[where c="?c" and mode="''Image Prompts''"] n unfolding f by blast
  then have one: "selectedModel (mode_effect (?c\<lparr>activeMode := ''Image Prompts''\<rparr>)) =
        JStr ''acme/paint''"
    by (simp add: image_descriptor_def)
  have g: "filteredModels ''Image Prompts'' (models sample_client) = []"
    by (simp add: filteredModels_def isImageMode_def paid_descriptor_def sample_client_def)
  have two: "selectedModelObj (mode_effect (sample_client\<lparr>activeMode := ''Image Prompts''\<rparr>)) = None \<and>
        no_models_notice (mode_effect (sample_client\<lparr>activeMode := ''Image Prompts''\<rparr>)) =
          (\<not> isVideoMode ''Image Prompts'' \<and> \<not> isLoadingModels sample_client \<and>
           \<not> truthy (modelError sample_client))"
    using mode_change_selection[where c=sample_client and mode="''Image Prompts''"] g by blast
  show ?thesis
    using one two by (simp add: isVideoMode_def sample_client_def)
qed

section \<open>Answers of the model-serving API\<close>

lemma opt_prop_nullish_data: "\<not> nullish data \<Longrightarrow> opt_prop data k = read_prop data k"
  by (simp add: opt_prop_def)

lemma image_url_upstream:
  assumes "\<not> nullish data"
  shows "image_url (js_or (opt_prop (opt_first (read_prop data ''choices'')) ''message'')
                     (JObj [])) =
         js_or (upstream_image_url data) JNull"
  using assms
  by (simp add: image_url_def upstream_image_url_def upstream_message_def Let_def
      read_prop_js_or_empty opt_prop_nullish_data)

lemma js_or_falsy: "\<not> truthy v \<Longrightarrow> js_or v w = w"
  by (simp add: js_or_def)

lemma truthy_js_or_null: "truthy (js_or v JNull) = truthy v"
  by (simp add: js_or_def)

text \<open>
  C5. On the image path, when the answer of the upstream holds no image URL under either
  shape, the operation fails with status 500 after its one request: with the error
  \<^verbatim>\<open>OpenRouter returned no image for this prompt.\<close>, or, when the answer has no body at
  all, with \<^verbatim>\<open>Image request failed.\<close> It does not answer with a success that carries a
  null \<^verbatim>\<open>imageUrl\<close>.
\<close>

theorem image_without_url_fails:
  assumes "prompt_check (body_prompt body) = Inr (Some p)"
    and "upstream (image_request (imageModel_of h body) p) = Inr data"
    and "\<not> truthy (upstream_image_url data)"
  shows "api_image h upstream body =
           (if nullish data
            then Failure 500 ''Image request failed.'' (DetailMessage TypeError)
            else Failure 500 ''OpenRouter returned no image for this prompt.'' NoDetail,
            [image_request (imageModel_of h body) p])"
proof (cases "nullish data")
  case True
  then show ?thesis
    using assms(1,2) unfolding imageModel_of_def
    by (simp add: api_image_def Let_def get_prop_def catch_failure_def)
next
  case False
  have "\<not> truthy (image_url (js_or (opt_prop (opt_first (read_prop data ''choices''))
                                    ''message'') (JObj [])))"
    using assms(3) by (simp add: image_url_upstream[OF False] truthy_js_or_null)
  then show ?thesis
    using assms(1,2) False unfolding imageModel_of_def
    by (simp add: api_image_def Let_def get_prop_def)
qed

theorem image_without_url_fails_witness:
  "api_image sample_host empty_upstream hello_body =
     (Failure 500 ''OpenRouter returned no image for this prompt.'' NoDetail,
      [image_request (JStr ''acme/text-1'') ''Hello''])"
proof -
  have m: "imageModel_of sample_host hello_body = JStr ''acme/text-1''"
    by (simp add: imageModel_of_def hello_body_def js_or_def)
  have a: "prompt_check (body_prompt hello_body) = Inr (Some ''Hello'')"
    by (simp add: hello_body_def js_trim_def is_space_def)
  have b: "empty_upstream (image_request (imageModel_of sample_host hello_body) ''Hello'') =
           Inr (JObj [])"
    by (simp add: empty_upstream_def)
  have c: "\<not> truthy (upstream_image_url (JObj []))"
    by (simp add: upstream_image_url_def upstream_message_def opt_prop_def nullish_def
        js_or_def)
  show ?thesis
    using image_without_url_fails[where upstream=empty_upstream and h=sample_host
        and body=hello_body and p="''Hello''" and data="JObj []", OF a b c]
    by (simp add: m nullish_def)
qed

text \<open>
  C10 (as stated, refuted). A successful answer of the upstream whose body is \<^verbatim>\<open>null\<close>
  holds nothing at \<^verbatim>\<open>choices[0].message.content\<close>, yet the operation does not answer with
  the fallback reply: \<^verbatim>\<open>response.data.choices\<close> is read with no guard on the body, the read
  throws, and the answer is status 500 with \<^verbatim>\<open>AI request failed.\<close>
\<close>

theorem null_body_is_an_error:
  "upstream_content JNull = JUndef \<and>
   api_ai sample_host null_upstream hello_body =
     (Failure 500 ''AI request failed.'' (DetailMessage TypeError),
      [text_request sample_host hello_body ''Hello'' 1735689600000])"
proof -
  have a: "prompt_check (body_prompt hello_body) = Inr (Some ''Hello'')"
    by (simp add: hello_body_def js_trim_def is_space_def)
  have b: "new_Date sample_host (body_clientDate hello_body) = Some 1735689600000"
    by (simp add: new_Date_def hello_body_def)
  have c: "\<not> (str_includes (toLowerCase ''Hello'') ''how many days'' \<and>
              str_includes (toLowerCase ''Hello'') ''christmas'')"
    by (simp add: toLowerCase_def lower_char_def)
  have "api_ai sample_host null_upstream hello_body =
     (Failure 500 ''AI request failed.'' (DetailMessage TypeError),
      [text_request sample_host hello_body ''Hello'' 1735689600000])"
    using a b c unfolding text_request_def
    by (simp add: api_ai_def Let_def null_upstream_def get_prop_def nullish_def
        catch_failure_def)
  moreover have "upstream_content JNull = JUndef"
    by (simp add: upstream_content_def upstream_message_def opt_prop_def nullish_def)
  ultimately show ?thesis by simp
qed

text \<open>
  C10 (amended). On the text path, when the upstream answers successfully with a body that
  is not null and holds nothing (or something falsy) at \<^verbatim>\<open>choices[0].message.content\<close>, the
  operation answers with success and the reply \<^verbatim>\<open>No response received from OpenRouter.\<close>,
  after its one request. The result is the very one the operation gives when the upstream
  does answer with that text as content, so the caller cannot tell the two apart.
\<close>

theorem missing_content_fallback:
  assumes "prompt_check (body_prompt body) = Inr (Some p)"
    and "new_Date h (body_clientDate body) = Some now"
    and "\<not> (str_includes (toLowerCase p) ''how many days'' \<and>
            str_includes (toLowerCase p) ''christmas'')"
    and "upstream (text_request h body p now) = Inr data"
    and "\<not> nullish data"
    and "\<not> truthy (upstream_content data)"
  shows "api_ai h upstream body =
           (Success (JObj [(''reply'', JStr ''No response received from OpenRouter.'')]),
            [text_request h body p now]) \<and>
         api_ai h (\<lambda>request. Inr fallback_answer) body = api_ai h upstream body"
proof -
  have c: "opt_prop (opt_prop (opt_first (read_prop data ''choices'')) ''message'') ''content'' =
           upstream_content data"
    using assms(5)
    by (simp add: upstream_content_def upstream_message_def opt_prop_nullish_data)
  have one: "api_ai h upstream body =
           (Success (JObj [(''reply'', JStr ''No response received from OpenRouter.'')]),
            [text_request h body p now])"
    using assms unfolding text_request_def
    by (simp add: api_ai_def Let_def get_prop_def c js_or_falsy)
  have two: "api_ai h (\<lambda>request. Inr fallback_answer) body =
           (Success (JObj [(''reply'', JStr ''No response received from OpenRouter.'')]),
            [text_request h body p now])"
  proof -
    have "opt_prop (opt_prop (opt_first (read_prop fallback_answer ''choices'')) ''message'')
            ''content'' = JStr ''No response received from OpenRouter.''"
      by (simp add: fallback_answer_def opt_prop_def nullish_def)
    moreover have "\<not> nullish fallback_answer"
      by (simp add: fallback_answer_def nullish_def)
    ultimately show ?thesis
      using assms(1,2,3) unfolding text_request_def
      by (simp add: api_ai_def Let_def get_prop_def js_or_def)
  qed
  show ?thesis using one two by simp
qed

theorem missing_content_fallback_witness:
  "fst (api_ai sample_host empty_upstream hello_body) =
     Success (JObj [(''reply'', JStr ''No response received from OpenRouter.'')])"
proof -
  have a: "prompt_check (body_prompt hello_body) = Inr (Some ''Hello'')"
    by (simp add: hello_body_def js_trim_def is_space_def)
  have b: "new_Date sample_host (body_clientDate hello_body) = Some 1735689600000"
    by (simp add: new_Date_def hello_body_def)
  have c: "\<not> (str_includes (toLowerCase ''Hello'') ''how many days'' \<and>
              str_includes (toLowerCase ''Hello'') ''christmas'')"
    by (simp add: toLowerCase_def lower_char_def)
  have d: "empty_upstream (text_request sample_host hello_body ''Hello'' 1735689600000) =
           Inr (JObj [])"
    by (simp add: empty_upstream_def)
  have e: "\<not> nullish (JObj [])"
    by (simp add: nullish_def)
  have f: "\<not> truthy (upstream_content (JObj []))"
    by (simp add: upstream_content_def upstream_message_def opt_prop_def nullish_def)
  show ?thesis
    using missing_content_fallback[where upstream=empty_upstream and h=sample_host
        and body=hello_body and p="''Hello''" and data="JObj []" and now=1735689600000,
        OF a b c d e f]
    by simp
qed

section \<open>Prompts\<close>

lemma str_includes_set: "str_includes s pat \<Longrightarrow> set pat \<subseteq> set s"
proof (induction s)
  case Nil
  then show ?case by simp
next
  case (Cons c s)
  show ?case
  proof (cases "prefix pat (c # s)")
    case True
    then show ?thesis by (rule set_mono_prefix)
  next
    case False
    then have "str_includes s pat" using Cons.prems by simp
    then have "set pat \<subseteq> set s" by (rule Cons.IH)
    then show ?thesis by auto
  qed
qed

lemma is_space_lower_char: "is_space c \<Longrightarrow> lower_char c = c"
  by (auto simp: is_space_def lower_char_def Let_def)

lemma not_space_c: "\<not> is_space CHR ''c''"
  by (simp add: is_space_def)

lemma christmas_not_blank:
  assumes "str_includes (toLowerCase s) ''christmas''"
  shows "\<exists>x \<in> set s. \<not> is_space x"
proof -
  have "CHR ''c'' \<in> set (toLowerCase s)"
    using str_includes_set[OF assms] by simp
  then obtain x where x: "x \<in> set s" "lower_char x = CHR ''c''"
    by (auto simp: toLowerCase_def)
  have "\<not> is_space x"
    using is_space_lower_char[of x] x(2) not_space_c by auto
  then show ?thesis using x(1) by blast
qed

lemma dropWhile_keeps:
  assumes "\<exists>x \<in> set s. \<not> P x"
  shows "\<exists>x \<in> set (dropWhile P s). \<not> P x"
  using assms by (induction s) auto

lemma js_trim_not_blank:
  assumes "\<exists>x \<in> set s. \<not> is_space x"
  shows "\<exists>x \<in> set (js_trim s). \<not> is_space x"
proof -
  have "\<exists>x \<in> set (rev (dropWhile is_space s)). \<not> is_space x"
    using dropWhile_keeps[OF assms] by simp
  then have "\<exists>x \<in> set (dropWhile is_space (rev (dropWhile is_space s))). \<not> is_space x"
    by (rule dropWhile_keeps)
  then show ?thesis by (simp add: js_trim_def)
qed

lemma prompt_check_christmas:
  assumes "str_includes (toLowerCase s) ''christmas''"
  shows "prompt_check (JStr s) = Inr (Some s)"
proof -
  have "\<exists>x \<in> set (js_trim s). \<not> is_space x"
    using christmas_not_blank[OF assms] by (rule js_trim_not_blank)
  then have "js_trim s \<noteq> []" by auto
  moreover have "s \<noteq> []" using christmas_not_blank[OF assms] by auto
  ultimately show ?thesis by simp
qed

lemma api_ai_christmas:
  assumes "body_prompt body = JStr s"
    and "str_includes (toLowerCase s) ''how many days''"
    and "str_includes (toLowerCase s) ''christmas''"
    and "new_Date h (body_clientDate body) = Some now"
  shows "api_ai h upstream body =
           (Success (JObj [(''reply'', JStr (christmas_reply h (toLowerCase s) now))]), [])"
  using assms prompt_check_christmas[OF assms(3)]
  by (simp add: api_ai_def Let_def)

section \<open>The date special case and the mode\<close>

text \<open>
  C3 (as stated, refuted). The client of the sample, in Image Prompts with an image model
  listed and selected, sends the prompt \<^verbatim>\<open>how many days until christmas\<close> to the image
  endpoint, and the image handler makes its request to the model-serving API: the date
  check is in the handler of the text endpoint only.
\<close>

theorem image_mode_date_prompt_goes_upstream:
  "handleSend image_client = PostImage image_turn_body \<and>
   str_includes (toLowerCase (js_trim (input image_client))) ''how many days'' \<and>
   str_includes (toLowerCase (js_trim (input image_client))) ''christmas'' \<and>
   api_image sample_host empty_upstream image_turn_body =
     (Failure 500 ''OpenRouter returned no image for this prompt.'' NoDetail,
      [image_request (JStr ''acme/paint'') ''how many days until christmas''])"
proof -
  have t: "js_trim (input image_client) = ''how many days until christmas''"
    by (simp add: image_client_def sample_client_def js_trim_def is_space_def)
  have a: "handleSend image_client = PostImage image_turn_body"
    unfolding handleSend_def t Let_def
    by (simp add: image_client_def sample_client_def isVideoMode_def isImageMode_def
        filteredModels_def image_descriptor_def paid_descriptor_def image_turn_body_def)
  have b: "str_includes (toLowerCase ''how many days until christmas'') ''how many days''"
    by code_simp
  have c: "str_includes (toLowerCase ''how many days until christmas'') ''christmas''"
    by code_simp
  have d: "api_image sample_host empty_upstream image_turn_body =
     (Failure 500 ''OpenRouter returned no image for this prompt.'' NoDetail,
      [image_request (JStr ''acme/paint'') ''how many days until christmas''])"
    by (simp add: api_image_def image_turn_body_def js_trim_def is_space_def Let_def
        empty_upstream_def get_prop_def nullish_def js_or_def image_url_def opt_prop_def)
  show ?thesis using a b c d unfolding t by blast
qed

text \<open>
  C3 (amended). When the client is logged in, has a model selected, is not in Video Prompts
  and is not in Image Prompts with a model listed for it, a prompt whose lower-cased text
  contains both phrases is sent to the text endpoint, whatever else the mode is, and the
  answer is the date reply computed on the server from the prompt and the client's clock,
  with no request made to the model-serving API.
\<close>

theorem text_endpoint_date_reply:
  assumes "truthy (token c)" and "truthy (selectedModel c)"
    and "\<not> isVideoMode (activeMode c)"
    and "\<not> (isImageMode (activeMode c) \<and> filteredModels (activeMode c) (models c) \<noteq> [])"
    and "str_includes (toLowerCase (js_trim (input c))) ''how many days''"
    and "str_includes (toLowerCase (js_trim (input c))) ''christmas''"
  shows "\<exists>body. handleSend c = PostAi body \<and>
           api_ai h upstream body =
             (Success
                (JObj [(''reply'',
                        JStr (christmas_reply h (toLowerCase (js_trim (input c))) (clock c)))]),
              [])"
proof -
  let ?body = "\<lparr> body_prompt = JStr (js_trim (input c)), body_brand = activeBrand c,
                  body_mode = activeMode c, body_modelId = selectedModel c,
                  body_model = selectedModel c, body_clientDate = Instant (clock c) \<rparr>"
  have ne: "js_trim (input c) \<noteq> []"
    using christmas_not_blank[OF assms(6)] by auto
  have s: "handleSend c = PostAi ?body"
    using assms(1-4) ne by (auto simp: handleSend_def Let_def)
  have "api_ai h upstream ?body =
          (Success
             (JObj [(''reply'',
                     JStr (christmas_reply h (toLowerCase (js_trim (input c))) (clock c)))]),
           [])"
    by (rule api_ai_christmas[OF _ assms(5,6)]) (simp_all add: new_Date_def)
  then show ?thesis using s by blast
qed

theorem text_endpoint_date_reply_witness:
  "\<exists>body. handleSend sample_client = PostAi body \<and>
     api_ai sample_host empty_upstream body =
       (Success
          (JObj [(''reply'',
                  JStr (christmas_reply sample_host
                          (toLowerCase (js_trim (input sample_client)))
                          (clock sample_client)))]),
        [])"
proof -
  have t: "js_trim (input sample_client) = ''how many days until christmas''"
    by (simp add: sample_client_def js_trim_def is_space_def)
  have a: "truthy (token sample_client)" "truthy (selectedModel sample_client)"
    "\<not> isVideoMode (activeMode sample_client)"
    "\<not> (isImageMode (activeMode sample_client) \<and>
        filteredModels (activeMode sample_client) (models sample_client) \<noteq> [])"
    by (simp_all add: sample_client_def isVideoMode_def isImageMode_def)
  have b: "str_includes (toLowerCase (js_trim (input sample_client))) ''how many days''"
    unfolding t by code_simp
  have c: "str_includes (toLowerCase (js_trim (input sample_client))) ''christmas''"
    unfolding t by code_simp
  show ?thesis
    by (rule text_endpoint_date_reply[OF a b c])
qed

section \<open>The date reply\<close>
















end
